theory Spec2Isabelle
  imports Main "HOL-Library.Word"
begin

section \<open>The fused multi-headed attention runner of gpu\_fused\_mha\_runner.h\<close>

subsection \<open>Types the header takes from other headers\<close>

text \<open>
  Modelled from the spec: the enumeration \<open>CudnnfMHAKind\<close>, declared in cublas\_cudnn.h.
  The spec calls the kind taxonomy closed and the variant selection exhaustive (a switch
  with no default); the enumerators are the case labels of the switch in
  \<open>CreateRunner\<close>, in the order of that switch.
\<close>

datatype CudnnfMHAKind =
    kBmmBmm
  | kSoftmaxDropout
  | kSoftmax
  | kScaleBiasSoftmax
  | kScaleBiasSoftmaxDropout
  | kScaleMaskSoftmax
  | kScaleMaskSoftmaxDropout
  | kScaleBiasMaskSoftmax
  | kScaleBiasMaskSoftmaxDropout

text \<open>
  Modelled from the spec: \<open>se::dnn::AlgorithmDesc\<close> (dnn.h), the "algorithm identifier"
  of an execution plan: an algorithm number and the tensor-op flag.
\<close>

record AlgorithmDesc =
  algo_id :: int
  tensor_ops_enabled :: bool

text \<open>
  Modelled from the spec: \<open>se::dnn::LazyOpRunner<Op>\<close> (lazy\_op\_runner.h), the
  execution plan. It is built from an algorithm descriptor, and its \<open>ToAlgorithmDesc\<close>
  "returns the algorithm identifier the held plan was constructed with".
\<close>

record LazyOpRunner =
  desc :: AlgorithmDesc

definition LazyOpRunner_new :: "AlgorithmDesc \<Rightarrow> LazyOpRunner" where
  "LazyOpRunner_new d = \<lparr>desc = d\<rparr>"

definition LazyOpRunner_ToAlgorithmDesc :: "LazyOpRunner \<Rightarrow> AlgorithmDesc" where
  "LazyOpRunner_ToAlgorithmDesc r = desc r"

text \<open>
  A \<open>std::unique_ptr<T>\<close> either owns an object or is null; \<open>.get()\<close> hands out the
  raw pointer, null included. \<open>std::make_unique\<close> always owns an object.
\<close>

type_synonym 'a unique_ptr = "'a option"

definition make_unique :: "AlgorithmDesc \<Rightarrow> LazyOpRunner unique_ptr" where
  "make_unique d = Some (LazyOpRunner_new d)"

text \<open>
  Modelled from the spec: \<open>PrimitiveType\<close> (xla\_data.proto), the "numeric element
  type", as the number of the enumerator. A \<open>double\<close> is its 64-bit pattern and an
  \<open>int64_t\<close> a 64-bit word: the code only stores and copies them.
\<close>

type_synonym PrimitiveType = nat
type_synonym double = "64 word"
type_synonym int64 = "64 word"

text \<open>
  Modelled from the spec: the tensor descriptors \<open>se::dnn::MatmulTensorDescriptor\<close> and
  \<open>se::dnn::TensorDescriptor\<close> (dnn.h): "layout-independent semantic shape plus element
  type", and for a matmul operand which axes are batch and contracting (the others are
  free).
\<close>

record TensorDescriptor =
  td_type :: PrimitiveType
  td_dimensions :: "int list"
  td_minor_to_major :: "int list"

record MatmulTensorDescriptor =
  tensor :: TensorDescriptor
  batch_dimension_numbers :: "int list"
  contracting_dim :: "int list"

subsection \<open>GpufMHAConfig\<close>

text \<open>
  The struct \<open>GpufMHAConfig\<close>, field by field. The fields \<open>mask\<close> and
  \<open>output\<close> are written \<open>mask_desc\<close> and \<open>output_desc\<close> here: \<open>mask\<close> is
  a constant of HOL's bit operations and \<open>output\<close> a keyword of Isabelle.
\<close>

record GpufMHAConfig =
  input_type :: PrimitiveType
  output_type :: PrimitiveType
  kind :: CudnnfMHAKind
  fmha_scale :: "double option"
  dropout_rate :: "double option"
  seed :: "int64 option"
  algorithm :: AlgorithmDesc
  lhs_bmm1 :: MatmulTensorDescriptor
  rhs_bmm1 :: MatmulTensorDescriptor
  rhs_bmm2 :: MatmulTensorDescriptor
  intermediate_lhs_bmm2 :: MatmulTensorDescriptor
  output_desc :: TensorDescriptor
  mask_desc :: "TensorDescriptor option"
  bias :: "TensorDescriptor option"

subsection \<open>FusedMultiHeadedAttentionRunner\<close>

text \<open>
  \<open>Repr\<close> is the \<open>std::variant\<close> of the class, its alternatives in the order of the
  source: \<open>std::monostate\<close> first (so that it is what a default-constructed variant
  holds), then one owning pointer to a plan for each of the four operation families.
\<close>

datatype Repr =
    Monostate
  | FusedMHASoftmaxOp "LazyOpRunner unique_ptr"
  | FusedMHAScaleMaskSoftmaxOp "LazyOpRunner unique_ptr"
  | FusedMHAScaleBiasSoftmaxOp "LazyOpRunner unique_ptr"
  | FusedMHAScaleBiasMaskSoftmaxOp "LazyOpRunner unique_ptr"

text \<open>\<open>std::holds_alternative<std::monostate>\<close>.\<close>

fun holds_monostate :: "Repr \<Rightarrow> bool" where
  "holds_monostate Monostate = True"
| "holds_monostate _ = False"

text \<open>
  What ends the process: a failed \<open>CHECK\<close>, with the text streamed into it, and the
  dereference of a null plan pointer (undefined in C++; the model stops there).
\<close>

datatype fatal = CheckFailed string | NullDereference

text \<open>The class has the one data member \<open>repr_\<close>.\<close>

record FusedMultiHeadedAttentionRunner =
  repr :: Repr

text \<open>
  \<open>CreateRunner\<close>: the switch over \<open>config.kind\<close>, case labels in the order of the
  source. Every case returns; there is no default and nothing after the switch.
\<close>

definition CreateRunner :: "GpufMHAConfig \<Rightarrow> Repr" where
  "CreateRunner config =
     (case kind config of
        kBmmBmm \<Rightarrow> FusedMHASoftmaxOp (make_unique (algorithm config))
      | kSoftmaxDropout \<Rightarrow> FusedMHASoftmaxOp (make_unique (algorithm config))
      | kSoftmax \<Rightarrow> FusedMHASoftmaxOp (make_unique (algorithm config))
      | kScaleBiasSoftmax \<Rightarrow> FusedMHAScaleBiasSoftmaxOp (make_unique (algorithm config))
      | kScaleBiasSoftmaxDropout \<Rightarrow>
          FusedMHAScaleBiasSoftmaxOp (make_unique (algorithm config))
      | kScaleMaskSoftmax \<Rightarrow> FusedMHAScaleMaskSoftmaxOp (make_unique (algorithm config))
      | kScaleMaskSoftmaxDropout \<Rightarrow>
          FusedMHAScaleMaskSoftmaxOp (make_unique (algorithm config))
      | kScaleBiasMaskSoftmax \<Rightarrow>
          FusedMHAScaleBiasMaskSoftmaxOp (make_unique (algorithm config))
      | kScaleBiasMaskSoftmaxDropout \<Rightarrow>
          FusedMHAScaleBiasMaskSoftmaxOp (make_unique (algorithm config)))"

text \<open>The defaulted constructor: a default-constructed variant holds its first alternative.\<close>

definition FusedMultiHeadedAttentionRunner_default :: FusedMultiHeadedAttentionRunner where
  "FusedMultiHeadedAttentionRunner_default = \<lparr>repr = Monostate\<rparr>"

text \<open>The four constructors that take an owning pointer to a plan, in the order of the source.\<close>

definition FusedMultiHeadedAttentionRunner_from_Softmax ::
  "LazyOpRunner unique_ptr \<Rightarrow> FusedMultiHeadedAttentionRunner" where
  "FusedMultiHeadedAttentionRunner_from_Softmax runner = \<lparr>repr = FusedMHASoftmaxOp runner\<rparr>"

definition FusedMultiHeadedAttentionRunner_from_ScaleMaskSoftmax ::
  "LazyOpRunner unique_ptr \<Rightarrow> FusedMultiHeadedAttentionRunner" where
  "FusedMultiHeadedAttentionRunner_from_ScaleMaskSoftmax runner =
     \<lparr>repr = FusedMHAScaleMaskSoftmaxOp runner\<rparr>"

definition FusedMultiHeadedAttentionRunner_from_ScaleBiasMaskSoftmax ::
  "LazyOpRunner unique_ptr \<Rightarrow> FusedMultiHeadedAttentionRunner" where
  "FusedMultiHeadedAttentionRunner_from_ScaleBiasMaskSoftmax runner =
     \<lparr>repr = FusedMHAScaleBiasMaskSoftmaxOp runner\<rparr>"

definition FusedMultiHeadedAttentionRunner_from_ScaleBiasSoftmax ::
  "LazyOpRunner unique_ptr \<Rightarrow> FusedMultiHeadedAttentionRunner" where
  "FusedMultiHeadedAttentionRunner_from_ScaleBiasSoftmax runner =
     \<lparr>repr = FusedMHAScaleBiasSoftmaxOp runner\<rparr>"

text \<open>The constructor that takes a \<open>Repr\<close>: it moves the value into \<open>repr_\<close>, whatever it holds.\<close>

definition FusedMultiHeadedAttentionRunner_from_Repr ::
  "Repr \<Rightarrow> FusedMultiHeadedAttentionRunner" where
  "FusedMultiHeadedAttentionRunner_from_Repr runner = \<lparr>repr = runner\<rparr>"

text \<open>
  The constructor that takes a \<open>GpufMHAConfig\<close> delegates to the \<open>Repr\<close> constructor
  with \<open>CreateRunner(config)\<close>; its body then fails a \<open>CHECK\<close> when \<open>repr_\<close> holds
  \<open>std::monostate\<close>. \<open>delegate_then_check\<close> is the delegation and the body for any
  value of the delegate's argument.
\<close>

definition delegate_then_check :: "Repr \<Rightarrow> fatal + FusedMultiHeadedAttentionRunner" where
  "delegate_then_check created =
     (let this = FusedMultiHeadedAttentionRunner_from_Repr created
      in if holds_monostate (repr this)
         then Inl (CheckFailed
           ''Cannot construct FusedMultiHeadedAttentionRunner with std::monostate'')
         else Inr this)"

definition FusedMultiHeadedAttentionRunner_from_Config ::
  "GpufMHAConfig \<Rightarrow> fatal + FusedMultiHeadedAttentionRunner" where
  "FusedMultiHeadedAttentionRunner_from_Config config =
     delegate_then_check (CreateRunner config)"

text \<open>
  \<open>ToAlgorithmDescVisitor\<close>: the template overload serves the four pointer alternatives
  and calls \<open>ToAlgorithmDesc\<close> through the pointer; the overload for \<open>std::monostate\<close>
  is \<open>CHECK(false)\<close>.
\<close>

definition visit_RunnerPtr :: "LazyOpRunner unique_ptr \<Rightarrow> fatal + AlgorithmDesc" where
  "visit_RunnerPtr runner =
     (case runner of
        None \<Rightarrow> Inl NullDereference
      | Some r \<Rightarrow> Inr (LazyOpRunner_ToAlgorithmDesc r))"

definition ToAlgorithmDescVisitor :: "Repr \<Rightarrow> fatal + AlgorithmDesc" where
  "ToAlgorithmDescVisitor v =
     (case v of
        Monostate \<Rightarrow>
          Inl (CheckFailed ''Internal error: uninitialized runner in ToAlgorithmDesc'')
      | FusedMHASoftmaxOp runner \<Rightarrow> visit_RunnerPtr runner
      | FusedMHAScaleMaskSoftmaxOp runner \<Rightarrow> visit_RunnerPtr runner
      | FusedMHAScaleBiasSoftmaxOp runner \<Rightarrow> visit_RunnerPtr runner
      | FusedMHAScaleBiasMaskSoftmaxOp runner \<Rightarrow> visit_RunnerPtr runner)"

definition ToAlgorithmDesc :: "FusedMultiHeadedAttentionRunner \<Rightarrow> fatal + AlgorithmDesc" where
  "ToAlgorithmDesc this = ToAlgorithmDescVisitor (repr this)"

text \<open>
  The narrowing accessors: \<open>CHECK(std::holds_alternative<...>(repr_))\<close> with nothing
  streamed into it, then \<open>std::get<...>(repr_).get()\<close>, the raw pointer.
\<close>

definition AsFusedMHASoftmaxRunner ::
  "FusedMultiHeadedAttentionRunner \<Rightarrow> fatal + LazyOpRunner option" where
  "AsFusedMHASoftmaxRunner this =
     (case repr this of FusedMHASoftmaxOp p \<Rightarrow> Inr p | _ \<Rightarrow> Inl (CheckFailed []))"

definition AsFusedMHAMaskRunner ::
  "FusedMultiHeadedAttentionRunner \<Rightarrow> fatal + LazyOpRunner option" where
  "AsFusedMHAMaskRunner this =
     (case repr this of FusedMHAScaleMaskSoftmaxOp p \<Rightarrow> Inr p | _ \<Rightarrow> Inl (CheckFailed []))"

definition AsFusedMHABiasMaskRunner ::
  "FusedMultiHeadedAttentionRunner \<Rightarrow> fatal + LazyOpRunner option" where
  "AsFusedMHABiasMaskRunner this =
     (case repr this of FusedMHAScaleBiasMaskSoftmaxOp p \<Rightarrow> Inr p | _ \<Rightarrow> Inl (CheckFailed []))"

definition AsFusedMHABiasRunner ::
  "FusedMultiHeadedAttentionRunner \<Rightarrow> fatal + LazyOpRunner option" where
  "AsFusedMHABiasRunner this =
     (case repr this of FusedMHAScaleBiasSoftmaxOp p \<Rightarrow> Inr p | _ \<Rightarrow> Inl (CheckFailed []))"

subsection \<open>A kind object that holds none of the enumerators\<close>




subsection \<open>Sequences of calls on one runner\<close>

text \<open>
  The member functions that can be called on a runner: \<open>ToAlgorithmDesc\<close> (a
  \<open>const\<close> member) and the four narrowing accessors. None of their bodies assigns
  \<open>repr_\<close>: each reads the variant and returns. A call that does not end the process
  gives its result and the runner as it is after the call.
\<close>

datatype member_call =
    CallToAlgorithmDesc
  | CallAsFusedMHASoftmaxRunner
  | CallAsFusedMHAMaskRunner
  | CallAsFusedMHABiasMaskRunner
  | CallAsFusedMHABiasRunner

datatype call_result = RetAlgorithmDesc AlgorithmDesc | RetRunnerPtr "LazyOpRunner option"

definition call ::
  "member_call \<Rightarrow> FusedMultiHeadedAttentionRunner \<Rightarrow>
     fatal + (call_result \<times> FusedMultiHeadedAttentionRunner)" where
  "call m this =
     (case m of
        CallToAlgorithmDesc \<Rightarrow>
          map_sum id (\<lambda>d. (RetAlgorithmDesc d, this)) (ToAlgorithmDesc this)
      | CallAsFusedMHASoftmaxRunner \<Rightarrow>
          map_sum id (\<lambda>p. (RetRunnerPtr p, this)) (AsFusedMHASoftmaxRunner this)
      | CallAsFusedMHAMaskRunner \<Rightarrow>
          map_sum id (\<lambda>p. (RetRunnerPtr p, this)) (AsFusedMHAMaskRunner this)
      | CallAsFusedMHABiasMaskRunner \<Rightarrow>
          map_sum id (\<lambda>p. (RetRunnerPtr p, this)) (AsFusedMHABiasMaskRunner this)
      | CallAsFusedMHABiasRunner \<Rightarrow>
          map_sum id (\<lambda>p. (RetRunnerPtr p, this)) (AsFusedMHABiasRunner this))"

text \<open>
  The runner after each call of a sequence, in order; the sequence ends at the first call
  that ends the process.
\<close>

fun run_calls ::
  "member_call list \<Rightarrow> FusedMultiHeadedAttentionRunner \<Rightarrow>
     FusedMultiHeadedAttentionRunner list" where
  "run_calls [] this = []"
| "run_calls (m # ms) this =
     (case call m this of
        Inl _ \<Rightarrow> []
      | Inr (_, this') \<Rightarrow> this' # run_calls ms this')"

subsection \<open>GpufMHADescriptor and GpufMHAConfig::For\<close>

text \<open>
  Modelled from the spec: \<open>Shape\<close>, \<open>DotDimensionNumbers\<close> (xla\_data.proto) and
  \<open>CudnnfMHABackendConfig\<close> (backend\_configs.proto). A shape is an element type,
  dimensions and a layout; dimension numbers say "which axes are batch, contracting, and
  free" on each side of a batched matmul; the backend configuration holds "scale, dropout
  rate, seed -- optionally present".
\<close>

record Shape =
  element_type :: PrimitiveType
  dimensions :: "int list"
  minor_to_major :: "int list"

record DotDimensionNumbers =
  lhs_contracting_dimensions :: "int list"
  rhs_contracting_dimensions :: "int list"
  lhs_batch_dimensions :: "int list"
  rhs_batch_dimensions :: "int list"

record CudnnfMHABackendConfig =
  bc_fmha_scale :: "double option"
  bc_dropout_rate :: "double option"
  bc_seed :: "int64 option"

text \<open>
  The struct \<open>GpufMHADescriptor\<close>, field by field; its \<open>kind\<close> is written
  \<open>desc_kind\<close>, the name \<open>kind\<close> being the field of \<open>GpufMHAConfig\<close>.
\<close>

record GpufMHADescriptor =
  desc_kind :: CudnnfMHAKind
  backend_config :: CudnnfMHABackendConfig
  lhs_bmm1_shape :: Shape
  rhs_bmm1_shape :: Shape
  rhs_bmm2_shape :: Shape
  intermediate_lhs_bmm2_shape :: Shape
  output_shape :: Shape
  bmm1_dnums :: DotDimensionNumbers
  bmm2_dnums :: DotDimensionNumbers
  mask_shape :: "Shape option"
  bias_shape :: "Shape option"

text \<open>
  The recoverable errors of the spec's taxonomy: a configuration error ("shape/dimension-number
  mismatch, missing/unexpected optional operand") and a binding error ("buffer set does not
  match the variant's required operand set").
\<close>

datatype config_problem = MissingOperand | UnexpectedOperand | DimensionNumbersMismatch

datatype error = ConfigurationError config_problem | BindingError

text \<open>
  Modelled from the spec: which kinds take a mask and which a bias. The header declares
  \<open>GpufMHAConfig::For\<close> and does not define it; the spec speaks of "the variant
  requires a mask (bias) shape" and distinguishes the kinds by "which optional operands
  (scale, mask, bias)" are active, which the kinds carry in their names.
\<close>

fun requires_mask :: "CudnnfMHAKind \<Rightarrow> bool" where
  "requires_mask kScaleMaskSoftmax = True"
| "requires_mask kScaleMaskSoftmaxDropout = True"
| "requires_mask kScaleBiasMaskSoftmax = True"
| "requires_mask kScaleBiasMaskSoftmaxDropout = True"
| "requires_mask _ = False"

fun requires_bias :: "CudnnfMHAKind \<Rightarrow> bool" where
  "requires_bias kScaleBiasSoftmax = True"
| "requires_bias kScaleBiasSoftmaxDropout = True"
| "requires_bias kScaleBiasMaskSoftmax = True"
| "requires_bias kScaleBiasMaskSoftmaxDropout = True"
| "requires_bias _ = False"

text \<open>
  Modelled from the spec: the tensor descriptor builder (section 4.1 of the spec), which
  is \<open>se::dnn::TensorDescriptor::For\<close> and \<open>se::dnn::MatmulTensorDescriptor::For\<close> of
  dnn.h. "Given a tensor shape and a batched-matmul dimension-number mapping ... produce a
  canonical operand descriptor"; it "fails if dimension-number counts are inconsistent with
  shape rank": a shape has no more batch and contracting axes together than it has axes.
\<close>

definition TensorDescriptor_For :: "Shape \<Rightarrow> TensorDescriptor" where
  "TensorDescriptor_For shape =
     \<lparr>td_type = element_type shape,
      td_dimensions = dimensions shape,
      td_minor_to_major = minor_to_major shape\<rparr>"

definition MatmulTensorDescriptor_For ::
  "Shape \<Rightarrow> int list \<Rightarrow> int list \<Rightarrow> error + MatmulTensorDescriptor" where
  "MatmulTensorDescriptor_For shape batch_dims contracting_dims =
     (if length (dimensions shape) < length batch_dims + length contracting_dims
      then Inl (ConfigurationError DimensionNumbersMismatch)
      else Inr \<lparr>tensor = TensorDescriptor_For shape,
                batch_dimension_numbers = batch_dims,
                contracting_dim = contracting_dims\<rparr>)"

text \<open>
  Modelled from the spec: \<open>GpufMHAConfig::For\<close> (the spec's \<open>BuildConfig\<close>, section
  4.2), declared in the header and defined in gpu\_fused\_mha\_runner.cc. In the order of
  the spec: the optional mask and bias shapes are "present exactly when the variant kind
  requires them; otherwise fails with a missing/unexpected operand error"; the element
  types are those of the first operand and of the output; scale, dropout rate and seed are
  copied from the backend configuration; the algorithm is "a single well-known default",
  here the parameter \<open>default_algorithm\<close>; the five required descriptors and the
  optional ones are built by the descriptor builder, whose failure is the failure of the
  whole. The result is a Config or an error, never both.
\<close>

definition GpufMHAConfig_For ::
  "AlgorithmDesc \<Rightarrow> GpufMHADescriptor \<Rightarrow> error + GpufMHAConfig" where
  "GpufMHAConfig_For default_algorithm fmha_desc =
     (if requires_mask (desc_kind fmha_desc) \<and> mask_shape fmha_desc = None
        then Inl (ConfigurationError MissingOperand)
      else if \<not> requires_mask (desc_kind fmha_desc) \<and> mask_shape fmha_desc \<noteq> None
        then Inl (ConfigurationError UnexpectedOperand)
      else if requires_bias (desc_kind fmha_desc) \<and> bias_shape fmha_desc = None
        then Inl (ConfigurationError MissingOperand)
      else if \<not> requires_bias (desc_kind fmha_desc) \<and> bias_shape fmha_desc \<noteq> None
        then Inl (ConfigurationError UnexpectedOperand)
      else
       (case MatmulTensorDescriptor_For (lhs_bmm1_shape fmha_desc)
               (lhs_batch_dimensions (bmm1_dnums fmha_desc))
               (lhs_contracting_dimensions (bmm1_dnums fmha_desc)) of
          Inl e \<Rightarrow> Inl e
        | Inr lhs1 \<Rightarrow>
       (case MatmulTensorDescriptor_For (rhs_bmm1_shape fmha_desc)
               (rhs_batch_dimensions (bmm1_dnums fmha_desc))
               (rhs_contracting_dimensions (bmm1_dnums fmha_desc)) of
          Inl e \<Rightarrow> Inl e
        | Inr rhs1 \<Rightarrow>
       (case MatmulTensorDescriptor_For (rhs_bmm2_shape fmha_desc)
               (rhs_batch_dimensions (bmm2_dnums fmha_desc))
               (rhs_contracting_dimensions (bmm2_dnums fmha_desc)) of
          Inl e \<Rightarrow> Inl e
        | Inr rhs2 \<Rightarrow>
       (case MatmulTensorDescriptor_For (intermediate_lhs_bmm2_shape fmha_desc)
               (lhs_batch_dimensions (bmm2_dnums fmha_desc))
               (lhs_contracting_dimensions (bmm2_dnums fmha_desc)) of
          Inl e \<Rightarrow> Inl e
        | Inr lhs2 \<Rightarrow>
            Inr \<lparr>input_type = element_type (lhs_bmm1_shape fmha_desc),
                 output_type = element_type (output_shape fmha_desc),
                 kind = desc_kind fmha_desc,
                 fmha_scale = bc_fmha_scale (backend_config fmha_desc),
                 dropout_rate = bc_dropout_rate (backend_config fmha_desc),
                 seed = bc_seed (backend_config fmha_desc),
                 algorithm = default_algorithm,
                 lhs_bmm1 = lhs1,
                 rhs_bmm1 = rhs1,
                 rhs_bmm2 = rhs2,
                 intermediate_lhs_bmm2 = lhs2,
                 output_desc = TensorDescriptor_For (output_shape fmha_desc),
                 mask_desc = map_option TensorDescriptor_For (mask_shape fmha_desc),
                 bias = map_option TensorDescriptor_For (bias_shape fmha_desc)\<rparr>)))))"

subsection \<open>GpufMHAParams and GpufMHAParams::For\<close>

text \<open>
  Modelled from the spec: \<open>se::DeviceMemoryBase\<close> (device\_memory.h), a device-memory
  handle: an address and a size in bytes. The handle of no buffer has the null address.
\<close>

record DeviceMemoryBase =
  opaque :: nat
  byte_size :: nat

definition is_null :: "DeviceMemoryBase \<Rightarrow> bool" where
  "is_null buffer = (opaque buffer = 0)"

text \<open>
  The struct \<open>GpufMHAParams\<close>, field by field; \<open>config\<close> is the pointer to the
  Config the parameters were bound to (not owned), here the Config it points to.
\<close>

record GpufMHAParams =
  config :: GpufMHAConfig
  lhs_bmm1_buffer :: DeviceMemoryBase
  rhs_bmm1_buffer :: DeviceMemoryBase
  rhs_bmm2_buffer :: DeviceMemoryBase
  output_buffer :: DeviceMemoryBase
  mask_buffer :: "DeviceMemoryBase option"
  bias_buffer :: "DeviceMemoryBase option"

text \<open>
  Modelled from the spec: \<open>GpufMHAParams::For\<close> (the spec's \<open>BindParams\<close>, section
  4.3), declared in the header with the six buffer handles as parameters and defined in
  gpu\_fused\_mha\_runner.cc. "Optional buffer handle is present iff the corresponding
  optional descriptor is present in config; mismatch fails with a buffer/variant mismatch
  error"; the mask and bias handles are passed as plain handles, so the handle that is
  present is the one that is not null. On success the value holds the Config and the
  handles.
\<close>

definition GpufMHAParams_For ::
  "GpufMHAConfig \<Rightarrow> DeviceMemoryBase \<Rightarrow> DeviceMemoryBase \<Rightarrow> DeviceMemoryBase \<Rightarrow>
     DeviceMemoryBase \<Rightarrow> DeviceMemoryBase \<Rightarrow> DeviceMemoryBase \<Rightarrow> error + GpufMHAParams" where
  "GpufMHAParams_For cfg lhs_bmm1_buf rhs_bmm1_buf rhs_bmm2_buf output_buf mask_buf bias_buf =
     (if (mask_desc cfg \<noteq> None) \<noteq> (\<not> is_null mask_buf) then Inl BindingError
      else if (bias cfg \<noteq> None) \<noteq> (\<not> is_null bias_buf) then Inl BindingError
      else Inr \<lparr>config = cfg,
                lhs_bmm1_buffer = lhs_bmm1_buf,
                rhs_bmm1_buffer = rhs_bmm1_buf,
                rhs_bmm2_buffer = rhs_bmm2_buf,
                output_buffer = output_buf,
                mask_buffer = (if is_null mask_buf then None else Some mask_buf),
                bias_buffer = (if is_null bias_buf then None else Some bias_buf)\<rparr>)"

text \<open>
  A buffer set matches a Config when each optional handle is present exactly when the
  Config has the descriptor of that operand.
\<close>

definition buffers_match :: "GpufMHAConfig \<Rightarrow> DeviceMemoryBase \<Rightarrow> DeviceMemoryBase \<Rightarrow> bool" where
  "buffers_match cfg mask_buf bias_buf =
     (((mask_desc cfg \<noteq> None) = (\<not> is_null mask_buf)) \<and>
      ((bias cfg \<noteq> None) = (\<not> is_null bias_buf)))"

subsection \<open>Sample values\<close>

definition sample_shape :: Shape where
  "sample_shape = \<lparr>element_type = 10, dimensions = [2, 4, 8, 16], minor_to_major = [3, 2, 1, 0]\<rparr>"

definition sample_dnums :: DotDimensionNumbers where
  "sample_dnums =
     \<lparr>lhs_contracting_dimensions = [3], rhs_contracting_dimensions = [3],
      lhs_batch_dimensions = [0, 1], rhs_batch_dimensions = [0, 1]\<rparr>"

definition sample_descriptor :: "CudnnfMHAKind \<Rightarrow> Shape option \<Rightarrow> Shape option \<Rightarrow> GpufMHADescriptor" where
  "sample_descriptor k m b =
     \<lparr>desc_kind = k,
      backend_config = \<lparr>bc_fmha_scale = Some 1, bc_dropout_rate = None, bc_seed = Some 42\<rparr>,
      lhs_bmm1_shape = sample_shape,
      rhs_bmm1_shape = sample_shape,
      rhs_bmm2_shape = sample_shape,
      intermediate_lhs_bmm2_shape = sample_shape,
      output_shape = sample_shape,
      bmm1_dnums = sample_dnums,
      bmm2_dnums = sample_dnums,
      mask_shape = m,
      bias_shape = b\<rparr>"

definition sample_algorithm :: AlgorithmDesc where
  "sample_algorithm = \<lparr>algo_id = 7, tensor_ops_enabled = True\<rparr>"

definition sample_matmul :: MatmulTensorDescriptor where
  "sample_matmul =
     \<lparr>tensor = TensorDescriptor_For sample_shape,
      batch_dimension_numbers = [0, 1], contracting_dim = [3]\<rparr>"

definition sample_config ::
  "CudnnfMHAKind \<Rightarrow> TensorDescriptor option \<Rightarrow> TensorDescriptor option \<Rightarrow> GpufMHAConfig" where
  "sample_config k m b =
     \<lparr>input_type = 10, output_type = 10, kind = k,
      fmha_scale = Some 1, dropout_rate = None, seed = Some 42,
      algorithm = sample_algorithm,
      lhs_bmm1 = sample_matmul, rhs_bmm1 = sample_matmul, rhs_bmm2 = sample_matmul,
      intermediate_lhs_bmm2 = sample_matmul,
      output_desc = TensorDescriptor_For sample_shape,
      mask_desc = m, bias = b\<rparr>"

definition sample_buffer :: "nat \<Rightarrow> DeviceMemoryBase" where
  "sample_buffer a = \<lparr>opaque = a, byte_size = 4096\<rparr>"

section \<open>Properties\<close>

subsection \<open>Shared facts\<close>

lemma CreateRunner_cases:
  "CreateRunner cfg = FusedMHASoftmaxOp (make_unique (algorithm cfg)) \<or>
   CreateRunner cfg = FusedMHAScaleMaskSoftmaxOp (make_unique (algorithm cfg)) \<or>
   CreateRunner cfg = FusedMHAScaleBiasSoftmaxOp (make_unique (algorithm cfg)) \<or>
   CreateRunner cfg = FusedMHAScaleBiasMaskSoftmaxOp (make_unique (algorithm cfg))"
  by (cases "kind cfg") (simp_all add: CreateRunner_def)

lemma accessors_of_family:
  "AsFusedMHASoftmaxRunner \<lparr>repr = FusedMHASoftmaxOp p\<rparr> = Inr p"
  "AsFusedMHASoftmaxRunner \<lparr>repr = FusedMHAScaleMaskSoftmaxOp p\<rparr> = Inl (CheckFailed [])"
  "AsFusedMHASoftmaxRunner \<lparr>repr = FusedMHAScaleBiasSoftmaxOp p\<rparr> = Inl (CheckFailed [])"
  "AsFusedMHASoftmaxRunner \<lparr>repr = FusedMHAScaleBiasMaskSoftmaxOp p\<rparr> = Inl (CheckFailed [])"
  "AsFusedMHAMaskRunner \<lparr>repr = FusedMHASoftmaxOp p\<rparr> = Inl (CheckFailed [])"
  "AsFusedMHAMaskRunner \<lparr>repr = FusedMHAScaleMaskSoftmaxOp p\<rparr> = Inr p"
  "AsFusedMHAMaskRunner \<lparr>repr = FusedMHAScaleBiasSoftmaxOp p\<rparr> = Inl (CheckFailed [])"
  "AsFusedMHAMaskRunner \<lparr>repr = FusedMHAScaleBiasMaskSoftmaxOp p\<rparr> = Inl (CheckFailed [])"
  "AsFusedMHABiasRunner \<lparr>repr = FusedMHASoftmaxOp p\<rparr> = Inl (CheckFailed [])"
  "AsFusedMHABiasRunner \<lparr>repr = FusedMHAScaleMaskSoftmaxOp p\<rparr> = Inl (CheckFailed [])"
  "AsFusedMHABiasRunner \<lparr>repr = FusedMHAScaleBiasSoftmaxOp p\<rparr> = Inr p"
  "AsFusedMHABiasRunner \<lparr>repr = FusedMHAScaleBiasMaskSoftmaxOp p\<rparr> = Inl (CheckFailed [])"
  "AsFusedMHABiasMaskRunner \<lparr>repr = FusedMHASoftmaxOp p\<rparr> = Inl (CheckFailed [])"
  "AsFusedMHABiasMaskRunner \<lparr>repr = FusedMHAScaleMaskSoftmaxOp p\<rparr> = Inl (CheckFailed [])"
  "AsFusedMHABiasMaskRunner \<lparr>repr = FusedMHAScaleBiasSoftmaxOp p\<rparr> = Inl (CheckFailed [])"
  "AsFusedMHABiasMaskRunner \<lparr>repr = FusedMHAScaleBiasMaskSoftmaxOp p\<rparr> = Inr p"
  by (simp_all add: AsFusedMHASoftmaxRunner_def AsFusedMHAMaskRunner_def
      AsFusedMHABiasRunner_def AsFusedMHABiasMaskRunner_def)

lemma accessors_of_monostate:
  "AsFusedMHASoftmaxRunner \<lparr>repr = Monostate\<rparr> = Inl (CheckFailed [])"
  "AsFusedMHAMaskRunner \<lparr>repr = Monostate\<rparr> = Inl (CheckFailed [])"
  "AsFusedMHABiasRunner \<lparr>repr = Monostate\<rparr> = Inl (CheckFailed [])"
  "AsFusedMHABiasMaskRunner \<lparr>repr = Monostate\<rparr> = Inl (CheckFailed [])"
  by (simp_all add: AsFusedMHASoftmaxRunner_def AsFusedMHAMaskRunner_def
      AsFusedMHABiasRunner_def AsFusedMHABiasMaskRunner_def)

lemma ToAlgorithmDesc_of_plan:
  "ToAlgorithmDesc \<lparr>repr = FusedMHASoftmaxOp (make_unique a)\<rparr> = Inr a"
  "ToAlgorithmDesc \<lparr>repr = FusedMHAScaleMaskSoftmaxOp (make_unique a)\<rparr> = Inr a"
  "ToAlgorithmDesc \<lparr>repr = FusedMHAScaleBiasSoftmaxOp (make_unique a)\<rparr> = Inr a"
  "ToAlgorithmDesc \<lparr>repr = FusedMHAScaleBiasMaskSoftmaxOp (make_unique a)\<rparr> = Inr a"
  by (simp_all add: ToAlgorithmDesc_def ToAlgorithmDescVisitor_def visit_RunnerPtr_def
      make_unique_def LazyOpRunner_new_def LazyOpRunner_ToAlgorithmDesc_def)

lemma delegate_then_check_family:
  "\<not> holds_monostate created \<Longrightarrow> delegate_then_check created = Inr \<lparr>repr = created\<rparr>"
  by (simp add: delegate_then_check_def FusedMultiHeadedAttentionRunner_from_Repr_def)

lemma delegate_then_check_monostate:
  "delegate_then_check Monostate =
     Inl (CheckFailed ''Cannot construct FusedMultiHeadedAttentionRunner with std::monostate'')"
  by (simp add: delegate_then_check_def FusedMultiHeadedAttentionRunner_from_Repr_def)

lemma from_Config_value:
  "FusedMultiHeadedAttentionRunner_from_Config cfg = Inr \<lparr>repr = CreateRunner cfg\<rparr>"
proof -
  have "\<not> holds_monostate (CreateRunner cfg)"
    using CreateRunner_cases [of cfg] by auto
  then show ?thesis
    by (simp add: FusedMultiHeadedAttentionRunner_from_Config_def delegate_then_check_family)
qed

lemma call_keeps_runner: "call m this = Inr (res, this') \<Longrightarrow> this' = this"
  by (cases m) (auto simp: call_def map_sum_def split: sum.splits)

lemma run_calls_unchanged: "s \<in> set (run_calls ms this) \<Longrightarrow> s = this"
proof (induction ms)
  case Nil
  then show ?case by simp
next
  case (Cons m ms)
  show ?case
  proof (cases "call m this")
    case (Inl e)
    with Cons.prems show ?thesis by simp
  next
    case (Inr p)
    obtain res this' where p: "p = (res, this')" by (cases p)
    with Inr have same: "this' = this" by (simp add: call_keeps_runner)
    with Inr p Cons.prems have "s = this \<or> s \<in> set (run_calls ms this)" by simp
    with Cons.IH show ?thesis by blast
  qed
qed

lemma sample_kind: "kind (sample_config k m b) = k"
  by (simp add: sample_config_def)

lemma sample_alg: "algorithm (sample_config k m b) = sample_algorithm"
  by (simp add: sample_config_def)

lemma sample_optional:
  "mask_desc (sample_config k m b) = m" "bias (sample_config k m b) = b"
  by (simp_all add: sample_config_def)

lemma sample_CreateRunner:
  "CreateRunner (sample_config kSoftmaxDropout m b) =
     FusedMHASoftmaxOp (make_unique sample_algorithm)"
  "CreateRunner (sample_config kScaleBiasSoftmax m b) =
     FusedMHAScaleBiasSoftmaxOp (make_unique sample_algorithm)"
  "CreateRunner (sample_config kScaleMaskSoftmaxDropout m b) =
     FusedMHAScaleMaskSoftmaxOp (make_unique sample_algorithm)"
  "CreateRunner (sample_config kScaleBiasMaskSoftmax m b) =
     FusedMHAScaleBiasMaskSoftmaxOp (make_unique sample_algorithm)"
  by (simp_all add: CreateRunner_def sample_kind sample_alg)

subsection \<open>The runner\<close>

text \<open>
  C1. \<open>CreateRunner\<close> maps the kind of the config to one plan family: \<open>kBmmBmm\<close>,
  \<open>kSoftmax\<close> and \<open>kSoftmaxDropout\<close> give a \<open>FusedMHASoftmaxOp\<close> runner,
  \<open>kScaleBiasSoftmax\<close> and its dropout kind a \<open>FusedMHAScaleBiasSoftmaxOp\<close> runner,
  \<open>kScaleMaskSoftmax\<close> and its dropout kind a \<open>FusedMHAScaleMaskSoftmaxOp\<close> runner,
  \<open>kScaleBiasMaskSoftmax\<close> and its dropout kind a \<open>FusedMHAScaleBiasMaskSoftmaxOp\<close>
  runner; the runner is a fresh plan for the algorithm of the config.
\<close>

theorem CreateRunner_family:
  "(kind cfg \<in> {kBmmBmm, kSoftmax, kSoftmaxDropout} \<longrightarrow>
      CreateRunner cfg = FusedMHASoftmaxOp (make_unique (algorithm cfg))) \<and>
   (kind cfg \<in> {kScaleBiasSoftmax, kScaleBiasSoftmaxDropout} \<longrightarrow>
      CreateRunner cfg = FusedMHAScaleBiasSoftmaxOp (make_unique (algorithm cfg))) \<and>
   (kind cfg \<in> {kScaleMaskSoftmax, kScaleMaskSoftmaxDropout} \<longrightarrow>
      CreateRunner cfg = FusedMHAScaleMaskSoftmaxOp (make_unique (algorithm cfg))) \<and>
   (kind cfg \<in> {kScaleBiasMaskSoftmax, kScaleBiasMaskSoftmaxDropout} \<longrightarrow>
      CreateRunner cfg = FusedMHAScaleBiasMaskSoftmaxOp (make_unique (algorithm cfg)))"
  by (cases "kind cfg") (simp_all add: CreateRunner_def)

theorem CreateRunner_family_witness:
  "kind (sample_config kSoftmaxDropout None None) \<in> {kBmmBmm, kSoftmax, kSoftmaxDropout} \<and>
   CreateRunner (sample_config kSoftmaxDropout None None) =
     FusedMHASoftmaxOp (Some \<lparr>desc = sample_algorithm\<rparr>) \<and>
   kind (sample_config kScaleBiasSoftmax None None) \<in>
     {kScaleBiasSoftmax, kScaleBiasSoftmaxDropout} \<and>
   CreateRunner (sample_config kScaleBiasSoftmax None None) =
     FusedMHAScaleBiasSoftmaxOp (Some \<lparr>desc = sample_algorithm\<rparr>) \<and>
   kind (sample_config kScaleMaskSoftmaxDropout None None) \<in>
     {kScaleMaskSoftmax, kScaleMaskSoftmaxDropout} \<and>
   CreateRunner (sample_config kScaleMaskSoftmaxDropout None None) =
     FusedMHAScaleMaskSoftmaxOp (Some \<lparr>desc = sample_algorithm\<rparr>) \<and>
   kind (sample_config kScaleBiasMaskSoftmax None None) \<in>
     {kScaleBiasMaskSoftmax, kScaleBiasMaskSoftmaxDropout} \<and>
   CreateRunner (sample_config kScaleBiasMaskSoftmax None None) =
     FusedMHAScaleBiasMaskSoftmaxOp (Some \<lparr>desc = sample_algorithm\<rparr>)"
  using CreateRunner_family [of "sample_config kSoftmaxDropout None None"]
    CreateRunner_family [of "sample_config kScaleBiasSoftmax None None"]
    CreateRunner_family [of "sample_config kScaleMaskSoftmaxDropout None None"]
    CreateRunner_family [of "sample_config kScaleBiasMaskSoftmax None None"]
  by (simp add: sample_kind sample_alg make_unique_def LazyOpRunner_new_def)

text \<open>
  On the enumerators the switch names, \<open>CreateRunner\<close> returns a runner of one of the
  four families and the construction from the config completes with it; on a config whose
  kind is an enumerator the two readings of \<open>CreateRunner\<close> and of the constructor agree.
\<close>

lemma CreateRunner_returns_family:
  "CreateRunner cfg \<in>
     {FusedMHASoftmaxOp (make_unique (algorithm cfg)),
      FusedMHAScaleMaskSoftmaxOp (make_unique (algorithm cfg)),
      FusedMHAScaleBiasSoftmaxOp (make_unique (algorithm cfg)),
      FusedMHAScaleBiasMaskSoftmaxOp (make_unique (algorithm cfg))} \<and>
   FusedMultiHeadedAttentionRunner_from_Config cfg =
     Inr (FusedMultiHeadedAttentionRunner_from_Repr (CreateRunner cfg))"
proof -
  have "CreateRunner cfg \<in>
     {FusedMHASoftmaxOp (make_unique (algorithm cfg)),
      FusedMHAScaleMaskSoftmaxOp (make_unique (algorithm cfg)),
      FusedMHAScaleBiasSoftmaxOp (make_unique (algorithm cfg)),
      FusedMHAScaleBiasMaskSoftmaxOp (make_unique (algorithm cfg))}"
    using CreateRunner_cases [of cfg] by blast
  moreover have "FusedMultiHeadedAttentionRunner_from_Config cfg =
     Inr (FusedMultiHeadedAttentionRunner_from_Repr (CreateRunner cfg))"
    by (simp add: from_Config_value FusedMultiHeadedAttentionRunner_from_Repr_def)
  ultimately show ?thesis by blast
qed




text \<open>
  C3. On the runner built by \<open>CreateRunner\<close> from a config of any kind, exactly one of
  the four narrowing accessors returns, and it returns the plan the runner holds (the plan
  built for the algorithm of the config); each of the other three fails its \<open>CHECK\<close>.
\<close>

theorem accessors_exactly_one:
  "(let this = FusedMultiHeadedAttentionRunner_from_Repr (CreateRunner cfg);
        plan = Inr (Some (LazyOpRunner_new (algorithm cfg)));
        failed = Inl (CheckFailed [])
    in (AsFusedMHASoftmaxRunner this = plan \<and> AsFusedMHAMaskRunner this = failed \<and>
        AsFusedMHABiasRunner this = failed \<and> AsFusedMHABiasMaskRunner this = failed) \<or>
       (AsFusedMHASoftmaxRunner this = failed \<and> AsFusedMHAMaskRunner this = plan \<and>
        AsFusedMHABiasRunner this = failed \<and> AsFusedMHABiasMaskRunner this = failed) \<or>
       (AsFusedMHASoftmaxRunner this = failed \<and> AsFusedMHAMaskRunner this = failed \<and>
        AsFusedMHABiasRunner this = plan \<and> AsFusedMHABiasMaskRunner this = failed) \<or>
       (AsFusedMHASoftmaxRunner this = failed \<and> AsFusedMHAMaskRunner this = failed \<and>
        AsFusedMHABiasRunner this = failed \<and> AsFusedMHABiasMaskRunner this = plan))"
  by (cases "kind cfg")
    (simp_all add: Let_def CreateRunner_def FusedMultiHeadedAttentionRunner_from_Repr_def
      make_unique_def accessors_of_family)

theorem accessors_exactly_one_witness:
  "AsFusedMHASoftmaxRunner
     (FusedMultiHeadedAttentionRunner_from_Repr
       (CreateRunner (sample_config kScaleMaskSoftmaxDropout None None))) =
     Inl (CheckFailed []) \<and>
   AsFusedMHAMaskRunner
     (FusedMultiHeadedAttentionRunner_from_Repr
       (CreateRunner (sample_config kScaleMaskSoftmaxDropout None None))) =
     Inr (Some \<lparr>desc = sample_algorithm\<rparr>) \<and>
   AsFusedMHABiasRunner
     (FusedMultiHeadedAttentionRunner_from_Repr
       (CreateRunner (sample_config kScaleMaskSoftmaxDropout None None))) =
     Inl (CheckFailed []) \<and>
   AsFusedMHABiasMaskRunner
     (FusedMultiHeadedAttentionRunner_from_Repr
       (CreateRunner (sample_config kScaleMaskSoftmaxDropout None None))) =
     Inl (CheckFailed [])"
  using accessors_exactly_one [of "sample_config kScaleMaskSoftmaxDropout None None"]
  by (simp add: sample_CreateRunner FusedMultiHeadedAttentionRunner_from_Repr_def
      accessors_of_family make_unique_def LazyOpRunner_new_def)

text \<open>
  C6. The constructor that takes a config never yields a runner that holds
  \<open>std::monostate\<close>: the construction from any config completes with a runner that
  holds one of the four plan families; were the value it delegates with
  \<open>std::monostate\<close>, the body would fail its \<open>CHECK\<close>; and whatever that value is, a
  runner that comes out of the constructor does not hold \<open>std::monostate\<close>.
\<close>

theorem from_Config_never_monostate:
  "(\<exists>this. FusedMultiHeadedAttentionRunner_from_Config cfg = Inr this \<and>
      repr this \<in>
        {FusedMHASoftmaxOp (make_unique (algorithm cfg)),
         FusedMHAScaleMaskSoftmaxOp (make_unique (algorithm cfg)),
         FusedMHAScaleBiasSoftmaxOp (make_unique (algorithm cfg)),
         FusedMHAScaleBiasMaskSoftmaxOp (make_unique (algorithm cfg))}) \<and>
   delegate_then_check Monostate =
     Inl (CheckFailed ''Cannot construct FusedMultiHeadedAttentionRunner with std::monostate'') \<and>
   (\<forall>created this.
      delegate_then_check created = Inr this \<longrightarrow> \<not> holds_monostate (repr this))"
proof -
  have "\<exists>this. FusedMultiHeadedAttentionRunner_from_Config cfg = Inr this \<and>
      repr this \<in>
        {FusedMHASoftmaxOp (make_unique (algorithm cfg)),
         FusedMHAScaleMaskSoftmaxOp (make_unique (algorithm cfg)),
         FusedMHAScaleBiasSoftmaxOp (make_unique (algorithm cfg)),
         FusedMHAScaleBiasMaskSoftmaxOp (make_unique (algorithm cfg))}"
    using CreateRunner_cases [of cfg] by (auto simp: from_Config_value)
  moreover have "\<forall>created this.
      delegate_then_check created = Inr this \<longrightarrow> \<not> holds_monostate (repr this)"
    by (auto simp: delegate_then_check_def FusedMultiHeadedAttentionRunner_from_Repr_def
        split: if_splits)
  ultimately show ?thesis
    using delegate_then_check_monostate by blast
qed

theorem from_Config_never_monostate_witness:
  "FusedMultiHeadedAttentionRunner_from_Config (sample_config kScaleBiasSoftmax None None) =
     Inr \<lparr>repr = FusedMHAScaleBiasSoftmaxOp (Some \<lparr>desc = sample_algorithm\<rparr>)\<rparr> \<and>
   delegate_then_check (CreateRunner (sample_config kScaleBiasSoftmax None None)) =
     Inr \<lparr>repr = FusedMHAScaleBiasSoftmaxOp (Some \<lparr>desc = sample_algorithm\<rparr>)\<rparr> \<and>
   \<not> holds_monostate
     (repr \<lparr>repr = FusedMHAScaleBiasSoftmaxOp (Some \<lparr>desc = sample_algorithm\<rparr>)\<rparr>)"
  using from_Config_never_monostate [of "sample_config kScaleBiasSoftmax None None"]
  by (simp add: from_Config_value sample_CreateRunner delegate_then_check_family
      make_unique_def LazyOpRunner_new_def)

text \<open>
  C7. On a default-constructed runner, which holds \<open>std::monostate\<close>,
  \<open>ToAlgorithmDesc\<close> and each of the four narrowing accessors fail a \<open>CHECK\<close>.
\<close>

theorem default_runner_fatal:
  "ToAlgorithmDesc FusedMultiHeadedAttentionRunner_default =
     Inl (CheckFailed ''Internal error: uninitialized runner in ToAlgorithmDesc'') \<and>
   AsFusedMHASoftmaxRunner FusedMultiHeadedAttentionRunner_default = Inl (CheckFailed []) \<and>
   AsFusedMHAMaskRunner FusedMultiHeadedAttentionRunner_default = Inl (CheckFailed []) \<and>
   AsFusedMHABiasMaskRunner FusedMultiHeadedAttentionRunner_default = Inl (CheckFailed []) \<and>
   AsFusedMHABiasRunner FusedMultiHeadedAttentionRunner_default = Inl (CheckFailed [])"
  by (simp add: FusedMultiHeadedAttentionRunner_default_def accessors_of_monostate
      ToAlgorithmDesc_def ToAlgorithmDescVisitor_def)

text \<open>
  C8. \<open>ToAlgorithmDesc\<close> on the runner built from a config returns the algorithm of
  that config, both on the runner made of \<open>CreateRunner\<close>'s value and on the runner the
  constructor that takes the config yields.
\<close>

theorem ToAlgorithmDesc_of_Config:
  "ToAlgorithmDesc (FusedMultiHeadedAttentionRunner_from_Repr (CreateRunner cfg)) =
     Inr (algorithm cfg) \<and>
   (\<exists>this. FusedMultiHeadedAttentionRunner_from_Config cfg = Inr this \<and>
      ToAlgorithmDesc this = Inr (algorithm cfg))"
proof -
  have "ToAlgorithmDesc \<lparr>repr = CreateRunner cfg\<rparr> = Inr (algorithm cfg)"
    using CreateRunner_cases [of cfg] by (auto simp: ToAlgorithmDesc_of_plan)
  then show ?thesis
    by (simp add: from_Config_value FusedMultiHeadedAttentionRunner_from_Repr_def)
qed

theorem ToAlgorithmDesc_of_Config_witness:
  "ToAlgorithmDesc
     (FusedMultiHeadedAttentionRunner_from_Repr
       (CreateRunner (sample_config kScaleBiasMaskSoftmax None None))) =
     Inr \<lparr>algo_id = 7, tensor_ops_enabled = True\<rparr>"
  using ToAlgorithmDesc_of_Config [of "sample_config kScaleBiasMaskSoftmax None None"]
  by (simp add: sample_alg sample_algorithm_def)

text \<open>
  C9. Over any sequence of calls of \<open>ToAlgorithmDesc\<close> and the four narrowing
  accessors, the runner holds after every call the variant it held at the start; so a
  runner constructed with one of the four plan families keeps that family and its plan.
\<close>

theorem run_calls_same_variant:
  "\<forall>s \<in> set (run_calls ms this). repr s = repr this"
  using run_calls_unchanged [of _ ms this] by blast

theorem run_calls_same_variant_witness:
  "run_calls [CallToAlgorithmDesc, CallAsFusedMHAMaskRunner, CallToAlgorithmDesc,
       CallAsFusedMHABiasRunner, CallToAlgorithmDesc]
     (FusedMultiHeadedAttentionRunner_from_ScaleMaskSoftmax (make_unique sample_algorithm)) =
     [\<lparr>repr = FusedMHAScaleMaskSoftmaxOp (make_unique sample_algorithm)\<rparr>,
      \<lparr>repr = FusedMHAScaleMaskSoftmaxOp (make_unique sample_algorithm)\<rparr>,
      \<lparr>repr = FusedMHAScaleMaskSoftmaxOp (make_unique sample_algorithm)\<rparr>] \<and>
   repr \<lparr>repr = FusedMHAScaleMaskSoftmaxOp (make_unique sample_algorithm)\<rparr> =
     repr (FusedMultiHeadedAttentionRunner_from_ScaleMaskSoftmax (make_unique sample_algorithm))"
  using run_calls_same_variant
    [of "[CallToAlgorithmDesc, CallAsFusedMHAMaskRunner, CallToAlgorithmDesc,
          CallAsFusedMHABiasRunner, CallToAlgorithmDesc]"
        "FusedMultiHeadedAttentionRunner_from_ScaleMaskSoftmax (make_unique sample_algorithm)"]
  by (simp add: FusedMultiHeadedAttentionRunner_from_ScaleMaskSoftmax_def call_def
      ToAlgorithmDesc_of_plan accessors_of_family)

text \<open>
  C10. The constructor that takes a \<open>Repr\<close> accepts a \<open>Repr\<close> that holds
  \<open>std::monostate\<close>: it has no check, and the runner it yields is the uninitialized
  runner of the default constructor. The check for \<open>std::monostate\<close> is in the body of
  the constructor that takes a config, where the same value ends the process.
\<close>

theorem from_Repr_monostate:
  "FusedMultiHeadedAttentionRunner_from_Repr Monostate =
     FusedMultiHeadedAttentionRunner_default \<and>
   holds_monostate (repr (FusedMultiHeadedAttentionRunner_from_Repr Monostate)) \<and>
   delegate_then_check Monostate =
     Inl (CheckFailed ''Cannot construct FusedMultiHeadedAttentionRunner with std::monostate'')"
  by (simp add: FusedMultiHeadedAttentionRunner_from_Repr_def
      FusedMultiHeadedAttentionRunner_default_def delegate_then_check_monostate)

subsection \<open>Building a config and binding buffers\<close>

lemma For_missing_mask:
  "requires_mask (desc_kind d) \<Longrightarrow> mask_shape d = None \<Longrightarrow>
     GpufMHAConfig_For a d = Inl (ConfigurationError MissingOperand)"
  by (simp add: GpufMHAConfig_For_def)

lemma For_unexpected_mask:
  "\<not> requires_mask (desc_kind d) \<Longrightarrow> mask_shape d \<noteq> None \<Longrightarrow>
     GpufMHAConfig_For a d = Inl (ConfigurationError UnexpectedOperand)"
  by (simp add: GpufMHAConfig_For_def)

lemma For_missing_bias:
  "requires_bias (desc_kind d) \<Longrightarrow> bias_shape d = None \<Longrightarrow>
     GpufMHAConfig_For a d \<in>
       {Inl (ConfigurationError MissingOperand), Inl (ConfigurationError UnexpectedOperand)}"
  by (simp add: GpufMHAConfig_For_def)

lemma For_unexpected_bias:
  "\<not> requires_bias (desc_kind d) \<Longrightarrow> bias_shape d \<noteq> None \<Longrightarrow>
     GpufMHAConfig_For a d \<in>
       {Inl (ConfigurationError MissingOperand), Inl (ConfigurationError UnexpectedOperand)}"
  by (simp add: GpufMHAConfig_For_def)

lemma sample_descriptor_fields:
  "desc_kind (sample_descriptor k m b) = k"
  "mask_shape (sample_descriptor k m b) = m"
  "bias_shape (sample_descriptor k m b) = b"
  by (simp_all add: sample_descriptor_def)

text \<open>
  C4. \<open>GpufMHAConfig::For\<close> fails with a configuration error when the kind of the
  descriptor requires a mask shape and the descriptor has none, when the kind does not
  require a mask shape and the descriptor has one, and likewise for the bias shape; a
  failure is an error value and no config.
\<close>

theorem GpufMHAConfig_For_optional_operands:
  "(requires_mask (desc_kind d) \<and> mask_shape d = None \<longrightarrow>
      GpufMHAConfig_For a d = Inl (ConfigurationError MissingOperand)) \<and>
   (\<not> requires_mask (desc_kind d) \<and> mask_shape d \<noteq> None \<longrightarrow>
      GpufMHAConfig_For a d = Inl (ConfigurationError UnexpectedOperand)) \<and>
   (requires_bias (desc_kind d) \<and> bias_shape d = None \<longrightarrow>
      GpufMHAConfig_For a d \<in>
        {Inl (ConfigurationError MissingOperand), Inl (ConfigurationError UnexpectedOperand)}) \<and>
   (\<not> requires_bias (desc_kind d) \<and> bias_shape d \<noteq> None \<longrightarrow>
      GpufMHAConfig_For a d \<in>
        {Inl (ConfigurationError MissingOperand), Inl (ConfigurationError UnexpectedOperand)}) \<and>
   (\<forall>e. GpufMHAConfig_For a d = Inl e \<longrightarrow> (\<forall>c. GpufMHAConfig_For a d \<noteq> Inr c))"
  using For_missing_mask [of d a] For_unexpected_mask [of d a]
    For_missing_bias [of d a] For_unexpected_bias [of d a]
  by auto

theorem GpufMHAConfig_For_optional_operands_witness:
  "requires_mask (desc_kind (sample_descriptor kScaleMaskSoftmax None None)) \<and>
   mask_shape (sample_descriptor kScaleMaskSoftmax None None) = None \<and>
   GpufMHAConfig_For sample_algorithm (sample_descriptor kScaleMaskSoftmax None None) =
     Inl (ConfigurationError MissingOperand) \<and>
   \<not> requires_mask (desc_kind (sample_descriptor kSoftmax (Some sample_shape) None)) \<and>
   mask_shape (sample_descriptor kSoftmax (Some sample_shape) None) \<noteq> None \<and>
   GpufMHAConfig_For sample_algorithm (sample_descriptor kSoftmax (Some sample_shape) None) =
     Inl (ConfigurationError UnexpectedOperand) \<and>
   requires_bias (desc_kind (sample_descriptor kScaleBiasSoftmaxDropout None None)) \<and>
   bias_shape (sample_descriptor kScaleBiasSoftmaxDropout None None) = None \<and>
   GpufMHAConfig_For sample_algorithm (sample_descriptor kScaleBiasSoftmaxDropout None None) =
     Inl (ConfigurationError MissingOperand) \<and>
   \<not> requires_bias
     (desc_kind (sample_descriptor kScaleMaskSoftmax (Some sample_shape) (Some sample_shape))) \<and>
   bias_shape (sample_descriptor kScaleMaskSoftmax (Some sample_shape) (Some sample_shape)) \<noteq>
     None \<and>
   GpufMHAConfig_For sample_algorithm
     (sample_descriptor kScaleMaskSoftmax (Some sample_shape) (Some sample_shape)) =
     Inl (ConfigurationError UnexpectedOperand)"
  using GpufMHAConfig_For_optional_operands
      [of "sample_descriptor kScaleMaskSoftmax None None" sample_algorithm]
    GpufMHAConfig_For_optional_operands
      [of "sample_descriptor kSoftmax (Some sample_shape) None" sample_algorithm]
    GpufMHAConfig_For_optional_operands
      [of "sample_descriptor kScaleBiasSoftmaxDropout None None" sample_algorithm]
    GpufMHAConfig_For_optional_operands
      [of "sample_descriptor kScaleMaskSoftmax (Some sample_shape) (Some sample_shape)"
          sample_algorithm]
  by (simp add: sample_descriptor_fields GpufMHAConfig_For_def)

text \<open>
  C5. For a buffer set that matches the config, \<open>GpufMHAParams::For\<close> succeeds, and
  the parameters have a mask buffer exactly when the config has a mask descriptor and a
  bias buffer exactly when it has a bias descriptor; for a buffer set that does not match,
  it fails with the binding error.
\<close>

theorem GpufMHAParams_For_buffers:
  "(buffers_match cfg mask_buf bias_buf \<longrightarrow>
      (\<exists>params.
         GpufMHAParams_For cfg lhs1 rhs1 rhs2 out mask_buf bias_buf = Inr params \<and>
         config params = cfg \<and>
         (mask_buffer params \<noteq> None) = (mask_desc cfg \<noteq> None) \<and>
         (bias_buffer params \<noteq> None) = (bias cfg \<noteq> None))) \<and>
   (\<not> buffers_match cfg mask_buf bias_buf \<longrightarrow>
      GpufMHAParams_For cfg lhs1 rhs1 rhs2 out mask_buf bias_buf = Inl BindingError)"
  by (auto simp: GpufMHAParams_For_def buffers_match_def)

theorem GpufMHAParams_For_buffers_witness:
  "buffers_match (sample_config kScaleMaskSoftmax (Some (TensorDescriptor_For sample_shape)) None)
     (sample_buffer 4096) (sample_buffer 0) \<and>
   (\<exists>params.
      GpufMHAParams_For
        (sample_config kScaleMaskSoftmax (Some (TensorDescriptor_For sample_shape)) None)
        (sample_buffer 64) (sample_buffer 128) (sample_buffer 256) (sample_buffer 512)
        (sample_buffer 4096) (sample_buffer 0) = Inr params \<and>
      mask_buffer params = Some (sample_buffer 4096) \<and> bias_buffer params = None) \<and>
   \<not> buffers_match (sample_config kSoftmax None None) (sample_buffer 0) (sample_buffer 8192) \<and>
   GpufMHAParams_For (sample_config kSoftmax None None)
     (sample_buffer 64) (sample_buffer 128) (sample_buffer 256) (sample_buffer 512)
     (sample_buffer 0) (sample_buffer 8192) = Inl BindingError"
  using GpufMHAParams_For_buffers
      [of "sample_config kScaleMaskSoftmax (Some (TensorDescriptor_For sample_shape)) None"
          "sample_buffer 4096" "sample_buffer 0"
          "sample_buffer 64" "sample_buffer 128" "sample_buffer 256" "sample_buffer 512"]
    GpufMHAParams_For_buffers
      [of "sample_config kSoftmax None None" "sample_buffer 0" "sample_buffer 8192"
          "sample_buffer 64" "sample_buffer 128" "sample_buffer 256" "sample_buffer 512"]
  by (simp add: GpufMHAParams_For_def buffers_match_def sample_optional is_null_def
      sample_buffer_def)

lemma For_sample_succeeds:
  "\<exists>c. GpufMHAConfig_For sample_algorithm
     (sample_descriptor kScaleMaskSoftmax (Some sample_shape) None) = Inr c \<and>
     kind c = kScaleMaskSoftmax \<and> mask_desc c \<noteq> None \<and> bias c = None"
  by (simp add: GpufMHAConfig_For_def sample_descriptor_def MatmulTensorDescriptor_For_def
      sample_shape_def sample_dnums_def)

end
